theory Spec2Isabelle
  imports Complex_Main "HOL-Library.Word"
begin

section \<open>Data model\<close>

text \<open>
  \<^verbatim>\<open>src/models/User.ts\<close> declares the interface \<^verbatim>\<open>User\<close> with the fields
  \<^verbatim>\<open>id, name, phone, email, age, weight\<close>. The five fields that a request body
  carries form the record \<open>user_fields\<close>; a row of the table extends it with the key.
  A field that the body leaves out is \<^verbatim>\<open>undefined\<close> after the destructuring
  \<^verbatim>\<open>const { name, phone, email, age, weight } = request.body\<close>; it is \<open>None\<close> here.
  A field that is there has the type the interface declares for it.
  The handlers never compute with \<^verbatim>\<open>age\<close> and \<^verbatim>\<open>weight\<close>, they only pass them on.
  The key is called \<open>id_key\<close>, since \<open>id\<close> is the identity function of HOL.
\<close>

record user_fields =
  name :: "string option"
  phone :: "string option"
  email :: "string option"
  age :: "real option"
  weight :: "real option"

record user = user_fields +
  id_key :: string

text \<open>What a handler reads of the request: \<^verbatim>\<open>request.params.id\<close> and \<^verbatim>\<open>request.body\<close>.\<close>

record request =
  params_id :: string
  body :: user_fields

section \<open>The environment of a handler call\<close>

text \<open>
  Three things are decided outside the repository: whether the validator of the
  \<^verbatim>\<open>email-validator\<close> package accepts an email, which bytes \<^verbatim>\<open>crypto.randomBytes\<close>
  returns, and whether a query sent to the data store throws. A handler call takes them
  as its environment. Each handler sends a query of a given kind at most once, so the
  failures of one call are a predicate on the kind of query.
\<close>

datatype query = SelectAll | CountAll | SelectById | InsertRow | UpdateById | DeleteById

datatype db_error = QueryFailed query | DuplicateKey string

record env =
  validate :: "string option \<Rightarrow> bool"
  entropy :: "nat \<Rightarrow> 8 word"
  fails :: "query \<Rightarrow> bool"

section \<open>The data store\<close>

text \<open>
  Modelled from the spec: the \<^verbatim>\<open>users\<close> table and the six queries of the repository
  access layer (list-all, count-all, find-by-id, insert-one, update-by-id, delete-by-id).
  The handlers reach them through \<^verbatim>\<open>db\<close>, imported from \<^verbatim>\<open>../database/connection\<close>,
  which is not among the sources. The table is the list of its rows, \<^verbatim>\<open>id\<close> is its
  primary key, a query that fails throws and leaves the table as it was, and
  update-by-id writes every column it is handed, an absent value included.
\<close>

definition select_all :: "env \<Rightarrow> user list \<Rightarrow> db_error + user list" where
  "select_all E tbl = (if fails E SelectAll then Inl (QueryFailed SelectAll) else Inr tbl)"

definition count_all :: "env \<Rightarrow> user list \<Rightarrow> db_error + nat" where
  "count_all E tbl = (if fails E CountAll then Inl (QueryFailed CountAll) else Inr (length tbl))"

definition find_by_id :: "env \<Rightarrow> string \<Rightarrow> user list \<Rightarrow> db_error + user option" where
  "find_by_id E i tbl =
     (if fails E SelectById then Inl (QueryFailed SelectById)
      else Inr (find (\<lambda>u. id_key u = i) tbl))"

definition insert_one :: "env \<Rightarrow> user \<Rightarrow> user list \<Rightarrow> db_error + user list" where
  "insert_one E u tbl =
     (if fails E InsertRow then Inl (QueryFailed InsertRow)
      else if id_key u \<in> set (map id_key tbl) then Inl (DuplicateKey (id_key u))
      else Inr (tbl @ [u]))"

definition overwrite :: "user_fields \<Rightarrow> user \<Rightarrow> user" where
  "overwrite f u =
     u\<lparr>name := name f, phone := phone f, email := email f, age := age f, weight := weight f\<rparr>"

definition update_by_id :: "env \<Rightarrow> string \<Rightarrow> user_fields \<Rightarrow> user list \<Rightarrow> db_error + user list" where
  "update_by_id E i f tbl =
     (if fails E UpdateById then Inl (QueryFailed UpdateById)
      else Inr (map (\<lambda>u. if id_key u = i then overwrite f u else u) tbl))"

definition delete_by_id :: "env \<Rightarrow> string \<Rightarrow> user list \<Rightarrow> db_error + user list" where
  "delete_by_id E i tbl =
     (if fails E DeleteById then Inl (QueryFailed DeleteById)
      else Inr (filter (\<lambda>u. id_key u \<noteq> i) tbl))"

section \<open>What a handler can change\<close>

text \<open>
  A handler writes to the table and, through \<^verbatim>\<open>console.error\<close>, to the error log.
\<close>

record world =
  users :: "user list"
  console :: "db_error list"

definition console_error :: "db_error \<Rightarrow> world \<Rightarrow> world" where
  "console_error err w = w\<lparr>console := console w @ [err]\<rparr>"

section \<open>The response\<close>

text \<open>
  The handlers use three methods of the response object: \<^verbatim>\<open>set\<close> (here \<open>set_header\<close>),
  \<^verbatim>\<open>status\<close> and \<^verbatim>\<open>json\<close>. A JSON body is a message object, one row or the list of rows.
\<close>

datatype json_body = NoBody | Message string | UserJson user | UsersJson "user list"

record response =
  statusCode :: nat
  headers :: "string \<rightharpoonup> string"
  payload :: json_body

definition set_header :: "string \<Rightarrow> string \<Rightarrow> response \<Rightarrow> response" where
  "set_header k v r = r\<lparr>headers := (headers r)(k \<mapsto> v)\<rparr>"

definition status :: "nat \<Rightarrow> response \<Rightarrow> response" where
  "status c r = r\<lparr>statusCode := c\<rparr>"

definition json :: "json_body \<Rightarrow> response \<Rightarrow> response" where
  "json b r = r\<lparr>payload := b\<rparr>"

text \<open>The response object as the server hands it to a handler.\<close>

definition new_response :: response where
  "new_response = \<lparr>statusCode = 200, headers = Map.empty, payload = NoBody\<rparr>"

section \<open>Strings\<close>

text \<open>\<^verbatim>\<open>String(total)\<close>: the decimal digits of the count.\<close>

fun String_of :: "nat \<Rightarrow> string" where
  "String_of n =
     (if n < 10 then [''0123456789'' ! n]
      else String_of (n div 10) @ [''0123456789'' ! (n mod 10)])"

declare String_of.simps [simp del]

text \<open>\<^verbatim>\<open>${email}\<close> in a template literal: \<^verbatim>\<open>undefined\<close> prints as its name.\<close>

definition template :: "string option \<Rightarrow> string" where
  "template v = (case v of None \<Rightarrow> ''undefined'' | Some s \<Rightarrow> s)"

text \<open>\<^verbatim>\<open>randomBytes(n)\<close> and \<^verbatim>\<open>buffer.toString('hex')\<close>: two lower-case digits a byte.\<close>

definition randomBytes :: "env \<Rightarrow> nat \<Rightarrow> 8 word list" where
  "randomBytes E n = map (entropy E) [0..<n]"

definition hex_digit :: "nat \<Rightarrow> char" where
  "hex_digit n = ''0123456789abcdef'' ! n"

definition toString_hex :: "8 word list \<Rightarrow> string" where
  "toString_hex bs = concat (map (\<lambda>b. [hex_digit (unat b div 16), hex_digit (unat b mod 16)]) bs)"

section \<open>The handlers of UsersController.ts\<close>

text \<open>
  Each handler takes the environment, the request, the response object and the world, and
  returns the response it sends with the world it leaves. An awaited query inside
  \<^verbatim>\<open>try\<close> is a case distinction on its result: \<open>Inl\<close> is the \<^verbatim>\<open>catch\<close> block, which
  gets the error. The handler \<^verbatim>\<open>show\<close> is \<open>show_user\<close> here, \<open>show\<close> being a keyword
  of the proof language, and the variable \<^verbatim>\<open>total\<close> of \<^verbatim>\<open>index\<close> is \<open>total'\<close>.
\<close>

definition index :: "env \<Rightarrow> request \<Rightarrow> response \<Rightarrow> world \<Rightarrow> response \<times> world" where
  "index E request response w =
     (case select_all E (users w) of
        Inl err \<Rightarrow>
          (json (Message ''Error when trying to access Users in the database.'')
             (status 500 response),
           console_error err w)
      | Inr us \<Rightarrow>
          (case count_all E (users w) of
             Inl err \<Rightarrow>
               (json (Message ''Error when trying to access Users in the database.'')
                  (status 500 response),
                console_error err w)
           | Inr total' \<Rightarrow>
               (let response = set_header ''X-Total-Count'' (String_of total') response in
                if total' = 0
                then (json (Message ''There are no users in the database.'')
                        (status 404 response), w)
                else (json (UsersJson us) (status 200 response), w))))"

definition show_user :: "env \<Rightarrow> request \<Rightarrow> response \<Rightarrow> world \<Rightarrow> response \<times> world" where
  "show_user E request response w =
     (let i = params_id request in
      case find_by_id E i (users w) of
        Inl err \<Rightarrow>
          (json (Message (''Error when trying to access User with ID '' @ i @ '' in the database.''))
             (status 500 response),
           console_error err w)
      | Inr None \<Rightarrow>
          (json (Message (''User with ID '' @ i @ '' not found in the database.''))
             (status 404 response), w)
      | Inr (Some u) \<Rightarrow> (json (UserJson u) (status 200 response), w))"

definition new_id :: "env \<Rightarrow> string" where
  "new_id E = toString_hex (randomBytes E 4)"

definition new_user :: "string \<Rightarrow> user_fields \<Rightarrow> user" where
  "new_user i f =
     \<lparr>name = name f, phone = phone f, email = email f, age = age f, weight = weight f,
      id_key = i\<rparr>"

definition create :: "env \<Rightarrow> request \<Rightarrow> response \<Rightarrow> world \<Rightarrow> response \<times> world" where
  "create E request response w =
     (let f = body request in
      if \<not> validate E (email f)
      then (json (Message (''The email '' @ template (email f) @ '' is not in a valid format.''))
              (status 400 response), w)
      else
        (let i = new_id E in
         case insert_one E (new_user i f) (users w) of
           Inr tbl \<Rightarrow>
             (json (Message (''User with ID '' @ i @ '' was created.'')) (status 201 response),
              w\<lparr>users := tbl\<rparr>)
         | Inl err \<Rightarrow>
             (json (Message ''Error when trying to insert new User in the database.'')
                (status 500 response),
              console_error err w)))"

definition change :: "env \<Rightarrow> request \<Rightarrow> response \<Rightarrow> world \<Rightarrow> response \<times> world" where
  "change E request response w =
     (let i = params_id request; f = body request in
      case find_by_id E i (users w) of
        Inl err \<Rightarrow>
          (json (Message (''Error when trying to access User with ID '' @ i @ '' in the database.''))
             (status 500 response),
           console_error err w)
      | Inr None \<Rightarrow>
          (json (Message (''User with ID '' @ i @ '' not found to be changed.''))
             (status 404 response), w)
      | Inr (Some u) \<Rightarrow>
          (case update_by_id E i f (users w) of
             Inr tbl \<Rightarrow>
               (json (Message (''User with ID '' @ i @ '' was updated.'')) (status 200 response),
                w\<lparr>users := tbl\<rparr>)
           | Inl err \<Rightarrow>
               (json (Message (''Could not update User with ID '' @ i @ ''.''))
                  (status 500 response), w)))"

definition remove :: "env \<Rightarrow> request \<Rightarrow> response \<Rightarrow> world \<Rightarrow> response \<times> world" where
  "remove E request response w =
     (let i = params_id request in
      case find_by_id E i (users w) of
        Inl err \<Rightarrow>
          (json (Message (''Error when trying to access User with ID '' @ i @ '' in the database.''))
             (status 500 response),
           console_error err w)
      | Inr None \<Rightarrow>
          (json (Message (''User with ID '' @ i @ '' was not found to be deleted.''))
             (status 404 response), w)
      | Inr (Some u) \<Rightarrow>
          (case delete_by_id E i (users w) of
             Inr tbl \<Rightarrow>
               (json (Message (''User with ID '' @ i @ '' deleted. '')) (status 200 response),
                w\<lparr>users := tbl\<rparr>)
           | Inl err \<Rightarrow>
               (json (Message (''Could not delete User with ID '' @ i @ ''.''))
                  (status 500 response),
                console_error err w)))"

section \<open>Sample data\<close>

text \<open>
  An environment, two rows and a request for the worked examples below. The sample
  validator only looks for an \<^verbatim>\<open>@\<close>; it stands for the library's check, which the
  handlers never look inside.
\<close>

definition sample_env :: env where
  "sample_env =
     \<lparr>validate = (\<lambda>e. case e of None \<Rightarrow> False | Some s \<Rightarrow> CHR ''@'' \<in> set s),
      entropy = (\<lambda>n. if n = 0 then 0x1f else if n = 1 then 0xa0 else if n = 2 then 0x07 else 0xce),
      fails = (\<lambda>q. False)\<rparr>"

definition ann :: user where
  "ann = \<lparr>name = Some ''Ann'', phone = Some ''555-0101'', email = Some ''ann@example.org'',
          age = Some 31, weight = Some 62.5, id_key = ''0a1b2c3d''\<rparr>"

definition bob :: user where
  "bob = \<lparr>name = Some ''Bob'', phone = Some ''555-0102'', email = Some ''bob@example.org'',
          age = Some 45, weight = Some 80, id_key = ''ffee0011''\<rparr>"

definition sample_world :: world where
  "sample_world = \<lparr>users = [ann, bob], console = []\<rparr>"

definition empty_world :: world where
  "empty_world = \<lparr>users = [], console = []\<rparr>"

definition sample_body :: user_fields where
  "sample_body = \<lparr>name = Some ''Cy'', phone = None, email = Some ''not-an-email'',
                  age = Some 20, weight = None\<rparr>"

text \<open>Two environments with a failing store: every query fails, or only the update.\<close>

definition store_down :: env where
  "store_down = sample_env\<lparr>fails := (\<lambda>q. True)\<rparr>"

definition update_down :: env where
  "update_down = sample_env\<lparr>fails := (\<lambda>q. q = UpdateById)\<rparr>"

text \<open>
  Requests: two bodies for a create, and a path id that is in the sample table and one
  that is not.
\<close>

definition bad_post :: request where
  "bad_post = \<lparr>params_id = [], body = sample_body\<rparr>"

definition good_post :: request where
  "good_post = \<lparr>params_id = [], body = sample_body\<lparr>email := Some ''a@b.com''\<rparr>\<rparr>"

definition put_ann :: request where
  "put_ann = \<lparr>params_id = ''0a1b2c3d'', body = sample_body\<rparr>"

definition put_nobody :: request where
  "put_nobody = \<lparr>params_id = ''00000000'', body = sample_body\<rparr>"

text \<open>The defining equations of the samples and of the response methods, for unfolding.\<close>

lemmas sample_defs =
  sample_env_def store_down_def update_down_def ann_def bob_def sample_world_def
  empty_world_def sample_body_def bad_post_def good_post_def put_ann_def put_nobody_def

lemmas response_defs = json_def status_def set_header_def new_response_def

section \<open>Facts about the store and the id\<close>

text \<open>Looking a key up in the table, before and after an update or a delete.\<close>

lemma find_absent: "i \<notin> id_key ` set tbl \<Longrightarrow> find (\<lambda>u. id_key u = i) tbl = None"
  by (auto simp: find_None_iff)

lemma find_present:
  "i \<in> id_key ` set tbl \<Longrightarrow> \<exists>u. find (\<lambda>u. id_key u = i) tbl = Some u \<and> id_key u = i"
  by (induction tbl) auto

lemma find_present_iff:
  "i \<in> id_key ` set tbl \<longleftrightarrow> find (\<lambda>u. id_key u = i) tbl \<noteq> None"
  by (induction tbl) auto

lemma overwrite_new_user: "overwrite f u = new_user (id_key u) f"
  by (cases u) (simp add: overwrite_def new_user_def)

lemma find_overwrite:
  "find (\<lambda>u. id_key u = i) (map (\<lambda>u. if id_key u = i then new_user (id_key u) f else u) tbl) =
   map_option (\<lambda>u. new_user i f) (find (\<lambda>u. id_key u = i) tbl)"
  by (induction tbl) (auto simp: new_user_def)

lemma find_deleted:
  "find (\<lambda>u. id_key u = i) (filter (\<lambda>u. id_key u \<noteq> i) tbl) = None"
  by (simp add: find_None_iff)

text \<open>The hexadecimal form of \<open>n\<close> bytes has \<open>2 * n\<close> characters, all of them hex digits.\<close>

lemma length_toString_hex: "length (toString_hex bs) = 2 * length bs"
  by (induction bs) (simp_all add: toString_hex_def)

lemma hex_digit_mem: "n < 16 \<Longrightarrow> hex_digit n \<in> set ''0123456789abcdef''"
  unfolding hex_digit_def by (rule nth_mem) simp

lemma unat_byte_div: "unat (b :: 8 word) div 16 < 16"
proof -
  have "unat b < 2 ^ 8" using unsigned_less [of b] by simp
  then show ?thesis by simp
qed

lemma set_toString_hex: "set (toString_hex bs) \<subseteq> set ''0123456789abcdef''"
proof (induction bs)
  case Nil
  then show ?case by (simp add: toString_hex_def)
next
  case (Cons b bs)
  have "hex_digit (unat b div 16) \<in> set ''0123456789abcdef''"
    by (rule hex_digit_mem) (rule unat_byte_div)
  moreover have "hex_digit (unat b mod 16) \<in> set ''0123456789abcdef''"
    by (rule hex_digit_mem) simp
  ultimately show ?case using Cons.IH by (simp add: toString_hex_def)
qed

section \<open>Create with an invalid email\<close>

text \<open>
  C1. When the validator rejects the email of the body, \<open>create\<close> answers 400 with
  the message that names the email, and that is all it does: the world (the users table
  and the error log) is returned as it was, and the answer does not depend on the random
  bytes, so no id is generated.
\<close>

theorem create_invalid_email:
  assumes "\<not> validate E (email (body req))"
  shows "create E req res w =
           (json (Message (''The email '' @ template (email (body req)) @
                           '' is not in a valid format.'')) (status 400 res), w) \<and>
         statusCode (fst (create E req res w)) = 400 \<and>
         users (snd (create E req res w)) = users w \<and>
         create (E\<lparr>entropy := r\<rparr>) req res w = create E req res w"
  using assms by (simp add: create_def json_def status_def)

text \<open>
  The spec's example: a create with the email \<^verbatim>\<open>not-an-email\<close> on a table of two rows.
\<close>

theorem create_invalid_email_witness:
  "\<not> validate sample_env (email (body bad_post)) \<and>
   create sample_env bad_post new_response sample_world =
     (\<lparr>statusCode = 400, headers = Map.empty,
       payload = Message ''The email not-an-email is not in a valid format.''\<rparr>,
      sample_world)"
proof -
  have h: "\<not> validate sample_env (email (body bad_post))"
    by (simp add: sample_defs)
  show ?thesis
    using h create_invalid_email [OF h, of new_response sample_world]
    by (simp add: response_defs template_def bad_post_def sample_body_def)
qed

section \<open>Create with a valid email\<close>

text \<open>
  C2. When the validator accepts the email and the insert succeeds, \<open>create\<close> answers
  201 with the message that contains the new id, and the table is the old table with
  exactly one row added: the new id with the five fields of the body. The id is the
  hexadecimal form of four random bytes, so it has eight characters, all hex digits; it is
  the key of no earlier row, since the insert would have failed on the primary key.
\<close>

theorem create_valid_email:
  assumes "validate E (email (body req))"
    and "insert_one E (new_user (new_id E) (body req)) (users w) = Inr tbl"
  shows "create E req res w =
           (json (Message (''User with ID '' @ new_id E @ '' was created.'')) (status 201 res),
            w\<lparr>users := users w @ [new_user (new_id E) (body req)]\<rparr>) \<and>
         statusCode (fst (create E req res w)) = 201 \<and>
         new_id E = toString_hex (randomBytes E 4) \<and>
         length (randomBytes E 4) = 4 \<and>
         length (new_id E) = 8 \<and>
         set (new_id E) \<subseteq> set ''0123456789abcdef'' \<and>
         new_id E \<notin> id_key ` set (users w) \<and>
         id_key (new_user (new_id E) (body req)) = new_id E \<and>
         name (new_user (new_id E) (body req)) = name (body req) \<and>
         phone (new_user (new_id E) (body req)) = phone (body req) \<and>
         email (new_user (new_id E) (body req)) = email (body req) \<and>
         age (new_user (new_id E) (body req)) = age (body req) \<and>
         weight (new_user (new_id E) (body req)) = weight (body req)"
proof -
  from assms(2) have fresh: "new_id E \<notin> id_key ` set (users w)"
    and tbl: "tbl = users w @ [new_user (new_id E) (body req)]"
    by (auto simp: insert_one_def new_user_def split: if_splits)
  have run: "create E req res w =
      (json (Message (''User with ID '' @ new_id E @ '' was created.'')) (status 201 res),
       w\<lparr>users := users w @ [new_user (new_id E) (body req)]\<rparr>)"
    using assms tbl by (simp add: create_def Let_def)
  have code: "statusCode (fst (create E req res w)) = 201"
    by (simp add: run json_def status_def)
  have len: "length (new_id E) = 8"
    by (simp add: new_id_def length_toString_hex randomBytes_def)
  have hex: "set (new_id E) \<subseteq> set ''0123456789abcdef''"
    unfolding new_id_def by (rule set_toString_hex)
  have flds: "id_key (new_user (new_id E) (body req)) = new_id E \<and>
         name (new_user (new_id E) (body req)) = name (body req) \<and>
         phone (new_user (new_id E) (body req)) = phone (body req) \<and>
         email (new_user (new_id E) (body req)) = email (body req) \<and>
         age (new_user (new_id E) (body req)) = age (body req) \<and>
         weight (new_user (new_id E) (body req)) = weight (body req)"
    by (simp add: new_user_def)
  have rb: "length (randomBytes E 4) = 4" by (simp add: randomBytes_def)
  show ?thesis
    using run code len hex fresh flds rb by (simp only: new_id_def simp_thms)
qed

text \<open>
  A create with the email \<^verbatim>\<open>a@b.com\<close>; the random bytes are 1f a0 07 ce.
\<close>

theorem create_valid_email_witness:
  "validate sample_env (email (body good_post)) \<and>
   create sample_env good_post new_response sample_world =
     (\<lparr>statusCode = 201, headers = Map.empty,
       payload = Message ''User with ID 1fa007ce was created.''\<rparr>,
      \<lparr>users = [ann, bob,
                \<lparr>name = Some ''Cy'', phone = None, email = Some ''a@b.com'', age = Some 20,
                 weight = None, id_key = ''1fa007ce''\<rparr>],
       console = []\<rparr>)"
proof -
  have i: "new_id sample_env = ''1fa007ce''"
    by code_simp
  have h1: "validate sample_env (email (body good_post))"
    by (simp add: sample_defs)
  have ok: "\<not> fails sample_env InsertRow"
    by (simp add: sample_env_def)
  have h2: "insert_one sample_env (new_user (new_id sample_env) (body good_post))
              (users sample_world) =
            Inr (users sample_world @ [new_user (new_id sample_env) (body good_post)])"
    by (simp add: i ok insert_one_def new_user_def sample_world_def ann_def bob_def)
  have run: "create sample_env good_post new_response sample_world =
      (json (Message (''User with ID '' @ new_id sample_env @ '' was created.''))
         (status 201 new_response),
       sample_world\<lparr>users := users sample_world @
                          [new_user (new_id sample_env) (body good_post)]\<rparr>)"
    using create_valid_email [OF h1 h2, of new_response] by (rule conjunct1)
  have "create sample_env good_post new_response sample_world =
     (\<lparr>statusCode = 201, headers = Map.empty,
       payload = Message ''User with ID 1fa007ce was created.''\<rparr>,
      \<lparr>users = [ann, bob,
                \<lparr>name = Some ''Cy'', phone = None, email = Some ''a@b.com'', age = Some 20,
                 weight = None, id_key = ''1fa007ce''\<rparr>],
       console = []\<rparr>)"
    unfolding run
    by (simp add: i response_defs new_user_def good_post_def sample_body_def sample_world_def)
  with h1 show ?thesis by (rule conjI)
qed

section \<open>List\<close>

text \<open>
  C3. When both queries of \<open>index\<close> succeed: with no rows it answers 404 with a
  descriptive message; with \<open>k > 0\<close> rows it answers 200, the body is the list of all
  \<open>k\<close> rows, and in both cases the header X-Total-Count is the count in decimal.
\<close>

theorem index_lists_or_404:
  assumes "\<not> fails E SelectAll" and "\<not> fails E CountAll"
  shows "(length (users w) = 0 \<longrightarrow>
            index E req res w =
              (json (Message ''There are no users in the database.'')
                 (status 404 (set_header ''X-Total-Count'' (String_of 0) res)), w)) \<and>
         (length (users w) > 0 \<longrightarrow>
            index E req res w =
              (json (UsersJson (users w))
                 (status 200 (set_header ''X-Total-Count'' (String_of (length (users w))) res)), w)) \<and>
         statusCode (fst (index E req res w)) = (if length (users w) = 0 then 404 else 200) \<and>
         headers (fst (index E req res w)) ''X-Total-Count'' = Some (String_of (length (users w)))"
  using assms
  by (simp add: index_def select_all_def count_all_def Let_def json_def status_def set_header_def)

text \<open>
  The list of the sample table of two rows, and the list of the empty table.
\<close>

theorem index_lists_or_404_witness:
  "index sample_env bad_post new_response sample_world =
     (\<lparr>statusCode = 200, headers = [''X-Total-Count'' \<mapsto> ''2''],
       payload = UsersJson [ann, bob]\<rparr>, sample_world) \<and>
   index sample_env bad_post new_response empty_world =
     (\<lparr>statusCode = 404, headers = [''X-Total-Count'' \<mapsto> ''0''],
       payload = Message ''There are no users in the database.''\<rparr>, empty_world)"
proof -
  have h1: "\<not> fails sample_env SelectAll" and h2: "\<not> fails sample_env CountAll"
    by (simp_all add: sample_env_def)
  show ?thesis
    using index_lists_or_404 [OF h1 h2, of sample_world bad_post new_response]
      index_lists_or_404 [OF h1 h2, of empty_world bad_post new_response]
    by (simp add: response_defs sample_world_def empty_world_def String_of.simps)
qed

section \<open>The count header\<close>

text \<open>
  C4, as amended. The responses of \<open>index\<close> when both queries succeed, the 200 and the
  404, carry the header X-Total-Count with the total count. When a query fails the
  answer is 500 and its headers are those of the response that came in: the handler sets
  the header only after the count query has returned.
\<close>

theorem index_count_header:
  "(\<not> fails E SelectAll \<and> \<not> fails E CountAll \<longrightarrow>
      statusCode (fst (index E req res w)) \<in> {200, 404} \<and>
      headers (fst (index E req res w)) ''X-Total-Count'' = Some (String_of (length (users w)))) \<and>
   (fails E SelectAll \<or> fails E CountAll \<longrightarrow>
      statusCode (fst (index E req res w)) = 500 \<and>
      headers (fst (index E req res w)) = headers res)"
  by (simp add: index_def select_all_def count_all_def Let_def json_def status_def set_header_def)

text \<open>
  The sample table listed with a working store and with a store that is down.
\<close>

theorem index_count_header_witness:
  "headers (fst (index sample_env bad_post new_response sample_world)) ''X-Total-Count'' =
     Some ''2'' \<and>
   statusCode (fst (index store_down bad_post new_response sample_world)) = 500 \<and>
   headers (fst (index store_down bad_post new_response sample_world)) = Map.empty"
  using index_count_header [where E = sample_env and w = sample_world and req = bad_post
      and res = new_response]
    index_count_header [where E = store_down and w = sample_world and req = bad_post
      and res = new_response]
  by (simp add: sample_defs new_response_def String_of.simps)

text \<open>
  C4 as stated fails: with the store down, the 500 response to a list of the sample table
  has no X-Total-Count header.
\<close>

theorem index_500_without_count_counterexample:
  "statusCode (fst (index store_down bad_post new_response sample_world)) = 500 \<and>
   headers (fst (index store_down bad_post new_response sample_world)) ''X-Total-Count'' = None"
  by (simp add: index_def select_all_def store_down_def response_defs)

section \<open>Update of a missing id\<close>

text \<open>
  C5. When the existence check succeeds and no row has the path id, \<open>change\<close> answers
  404 with the message that names the id and returns the world as it was: no write, and
  no row created.
\<close>

theorem change_missing_id:
  assumes "\<not> fails E SelectById" and "params_id req \<notin> id_key ` set (users w)"
  shows "change E req res w =
           (json (Message (''User with ID '' @ params_id req @ '' not found to be changed.''))
              (status 404 res), w) \<and>
         statusCode (fst (change E req res w)) = 404 \<and>
         users (snd (change E req res w)) = users w"
  using assms find_absent [of "params_id req" "users w"]
  by (simp add: change_def find_by_id_def Let_def json_def status_def)

text \<open>
  An update of the id 00000000, which the sample table does not hold.
\<close>

theorem change_missing_id_witness:
  "\<not> fails sample_env SelectById \<and> params_id put_nobody \<notin> id_key ` set (users sample_world) \<and>
   change sample_env put_nobody new_response sample_world =
     (\<lparr>statusCode = 404, headers = Map.empty,
       payload = Message ''User with ID 00000000 not found to be changed.''\<rparr>, sample_world)"
proof -
  have h1: "\<not> fails sample_env SelectById"
    by (simp add: sample_env_def)
  have h2: "params_id put_nobody \<notin> id_key ` set (users sample_world)"
    by (simp add: sample_defs)
  show ?thesis
    using h1 h2 change_missing_id [OF h1 h2, of new_response]
    by (simp add: response_defs put_nobody_def)
qed

section \<open>Update of an existing id\<close>

text \<open>
  C6. When the path id is the key of a row and both the existence check and the update
  succeed, \<open>change\<close> answers 200 with the message that names the id, and every row
  with that key has all five fields replaced by those of the body, a field absent from the
  body becoming absent in the row; keys and the other rows stay. A get-one on the same id
  afterwards, if its query succeeds, answers 200 with the key and the fields of the body.
\<close>

theorem change_overwrites:
  assumes "\<not> fails E SelectById" and "params_id req \<in> id_key ` set (users w)"
    and "\<not> fails E UpdateById"
  shows "change E req res w =
           (json (Message (''User with ID '' @ params_id req @ '' was updated.''))
              (status 200 res),
            w\<lparr>users := map (\<lambda>u. if id_key u = params_id req
                                then new_user (id_key u) (body req) else u) (users w)\<rparr>) \<and>
         statusCode (fst (change E req res w)) = 200 \<and>
         (\<forall>u \<in> set (users (snd (change E req res w))).
            id_key u = params_id req \<longrightarrow>
              name u = name (body req) \<and> phone u = phone (body req) \<and>
              email u = email (body req) \<and> age u = age (body req) \<and>
              weight u = weight (body req)) \<and>
         map id_key (users (snd (change E req res w))) = map id_key (users w) \<and>
         (\<not> fails E' SelectById \<and> params_id req' = params_id req \<longrightarrow>
            show_user E' req' res' (snd (change E req res w)) =
              (json (UserJson (new_user (params_id req) (body req))) (status 200 res'),
               snd (change E req res w)))"
proof -
  let ?i = "params_id req"
  let ?tbl = "map (\<lambda>u. if id_key u = ?i then new_user (id_key u) (body req) else u) (users w)"
  from assms(2) obtain u where found: "find (\<lambda>u. id_key u = ?i) (users w) = Some u"
    using find_present by blast
  have run: "change E req res w =
      (json (Message (''User with ID '' @ ?i @ '' was updated.'')) (status 200 res),
       w\<lparr>users := ?tbl\<rparr>)"
    using assms(1,3) found
    by (simp add: change_def find_by_id_def update_by_id_def Let_def overwrite_new_user)
  have code: "statusCode (fst (change E req res w)) = 200"
    by (simp add: run json_def status_def)
  have flds: "\<forall>u \<in> set ?tbl. id_key u = ?i \<longrightarrow>
      name u = name (body req) \<and> phone u = phone (body req) \<and>
      email u = email (body req) \<and> age u = age (body req) \<and> weight u = weight (body req)"
    by (auto simp: new_user_def)
  have keys: "map id_key ?tbl = map id_key (users w)"
    by (induction "users w") (auto simp: new_user_def)
  have "find (\<lambda>u. id_key u = ?i) ?tbl = Some (new_user ?i (body req))"
    by (simp add: find_overwrite found)
  then have again: "\<not> fails E' SelectById \<and> params_id req' = ?i \<longrightarrow>
      show_user E' req' res' (snd (change E req res w)) =
        (json (UserJson (new_user ?i (body req))) (status 200 res'), snd (change E req res w))"
    by (simp add: run show_user_def find_by_id_def Let_def)
  show ?thesis
    using run code flds keys again by simp
qed

text \<open>
  An update of Ann's row with a body that has no phone and no weight.
\<close>

theorem change_overwrites_witness:
  "change sample_env put_ann new_response sample_world =
     (\<lparr>statusCode = 200, headers = Map.empty,
       payload = Message ''User with ID 0a1b2c3d was updated.''\<rparr>,
      \<lparr>users = [\<lparr>name = Some ''Cy'', phone = None, email = Some ''not-an-email'',
                 age = Some 20, weight = None, id_key = ''0a1b2c3d''\<rparr>, bob],
       console = []\<rparr>) \<and>
   show_user sample_env put_ann new_response
       (snd (change sample_env put_ann new_response sample_world)) =
     (\<lparr>statusCode = 200, headers = Map.empty,
       payload = UserJson \<lparr>name = Some ''Cy'', phone = None, email = Some ''not-an-email'',
                           age = Some 20, weight = None, id_key = ''0a1b2c3d''\<rparr>\<rparr>,
      snd (change sample_env put_ann new_response sample_world))"
proof -
  have h1: "\<not> fails sample_env SelectById" and h3: "\<not> fails sample_env UpdateById"
    by (simp_all add: sample_env_def)
  have h2: "params_id put_ann \<in> id_key ` set (users sample_world)"
    by (simp add: sample_defs)
  note t = change_overwrites [OF h1 h2 h3, where res = new_response and E' = sample_env
      and req' = put_ann and res' = new_response]
  from t have run: "change sample_env put_ann new_response sample_world =
      (json (Message (''User with ID '' @ params_id put_ann @ '' was updated.''))
         (status 200 new_response),
       sample_world\<lparr>users := map (\<lambda>u. if id_key u = params_id put_ann
                                then new_user (id_key u) (body put_ann) else u)
                             (users sample_world)\<rparr>)"
    by (rule conjunct1)
  from t h1 have again: "show_user sample_env put_ann new_response
       (snd (change sample_env put_ann new_response sample_world)) =
     (json (UserJson (new_user (params_id put_ann) (body put_ann))) (status 200 new_response),
      snd (change sample_env put_ann new_response sample_world))"
    by blast
  show ?thesis
    unfolding again unfolding run
    by (simp add: response_defs new_user_def put_ann_def sample_body_def sample_world_def
        ann_def bob_def)
qed

section \<open>The unlogged failure of the update query\<close>

text \<open>
  C7. When the existence check of \<open>change\<close> finds the row and the update query fails,
  the answer is 500 with the message that names the id, and the world, its error log
  included, is as it was. This is the only 500 without a log entry: \<open>change\<close> answers
  500 with the log unchanged exactly on that path, and every other 500 of the five
  handlers appends one error to the log.
\<close>

theorem change_update_failure_unlogged:
  "(\<not> fails E SelectById \<and> params_id req \<in> id_key ` set (users w) \<and> fails E UpdateById \<longrightarrow>
      change E req res w =
        (json (Message (''Could not update User with ID '' @ params_id req @ ''.''))
           (status 500 res), w)) \<and>
   (statusCode (fst (change E req res w)) = 500 \<and>
    console (snd (change E req res w)) = console w \<longleftrightarrow>
      \<not> fails E SelectById \<and> params_id req \<in> id_key ` set (users w) \<and> fails E UpdateById) \<and>
   (statusCode (fst (change E req res w)) = 500 \<and> fails E SelectById \<longrightarrow>
      console (snd (change E req res w)) = console w @ [QueryFailed SelectById]) \<and>
   (statusCode (fst (index E req res w)) = 500 \<longrightarrow>
      (\<exists>err. console (snd (index E req res w)) = console w @ [err])) \<and>
   (statusCode (fst (show_user E req res w)) = 500 \<longrightarrow>
      (\<exists>err. console (snd (show_user E req res w)) = console w @ [err])) \<and>
   (statusCode (fst (create E req res w)) = 500 \<longrightarrow>
      (\<exists>err. console (snd (create E req res w)) = console w @ [err])) \<and>
   (statusCode (fst (remove E req res w)) = 500 \<longrightarrow>
      (\<exists>err. console (snd (remove E req res w)) = console w @ [err]))"
proof -
  have present: "params_id req \<in> id_key ` set (users w) \<longleftrightarrow>
      find (\<lambda>u. id_key u = params_id req) (users w) \<noteq> None"
    by (rule find_present_iff)
  have c: "(\<not> fails E SelectById \<and> params_id req \<in> id_key ` set (users w) \<and> fails E UpdateById \<longrightarrow>
      change E req res w =
        (json (Message (''Could not update User with ID '' @ params_id req @ ''.''))
           (status 500 res), w)) \<and>
   (statusCode (fst (change E req res w)) = 500 \<and>
    console (snd (change E req res w)) = console w \<longleftrightarrow>
      \<not> fails E SelectById \<and> params_id req \<in> id_key ` set (users w) \<and> fails E UpdateById) \<and>
   (statusCode (fst (change E req res w)) = 500 \<and> fails E SelectById \<longrightarrow>
      console (snd (change E req res w)) = console w @ [QueryFailed SelectById])"
    unfolding present
    by (auto simp: change_def find_by_id_def update_by_id_def Let_def json_def status_def
        console_error_def split: option.splits)
  have i: "statusCode (fst (index E req res w)) = 500 \<longrightarrow>
      (\<exists>err. console (snd (index E req res w)) = console w @ [err])"
    by (simp add: index_def select_all_def count_all_def Let_def json_def status_def
        set_header_def console_error_def)
  have s: "statusCode (fst (show_user E req res w)) = 500 \<longrightarrow>
      (\<exists>err. console (snd (show_user E req res w)) = console w @ [err])"
    by (simp add: show_user_def find_by_id_def Let_def json_def status_def console_error_def
        split: option.splits)
  have k: "statusCode (fst (create E req res w)) = 500 \<longrightarrow>
      (\<exists>err. console (snd (create E req res w)) = console w @ [err])"
    by (simp add: create_def insert_one_def Let_def json_def status_def console_error_def)
  have r: "statusCode (fst (remove E req res w)) = 500 \<longrightarrow>
      (\<exists>err. console (snd (remove E req res w)) = console w @ [err])"
    by (simp add: remove_def find_by_id_def delete_by_id_def Let_def json_def status_def
        console_error_def split: option.splits)
  from c i s k r show ?thesis by blast
qed

text \<open>
  An update of Ann's row when only the update query fails, and when every query fails.
\<close>

theorem change_update_failure_unlogged_witness:
  "change update_down put_ann new_response sample_world =
     (\<lparr>statusCode = 500, headers = Map.empty,
       payload = Message ''Could not update User with ID 0a1b2c3d.''\<rparr>, sample_world) \<and>
   statusCode (fst (change store_down put_ann new_response sample_world)) = 500 \<and>
   console (snd (change store_down put_ann new_response sample_world)) = [QueryFailed SelectById]"
proof -
  have a: "statusCode (fst (change store_down put_ann new_response sample_world)) = 500"
    by (simp add: change_def find_by_id_def store_down_def response_defs)
  show ?thesis
    using a
      change_update_failure_unlogged [where E = update_down and req = put_ann
        and w = sample_world and res = new_response]
      change_update_failure_unlogged [where E = store_down and req = put_ann
        and w = sample_world and res = new_response]
    by (simp add: sample_defs response_defs)
qed

section \<open>No email check on update\<close>

text \<open>
  C8. \<open>change\<close> never answers 400: its status is 200, 404 or 500, and its result does
  not depend on the validator at all.
\<close>

theorem change_never_400:
  "statusCode (fst (change E req res w)) \<noteq> 400 \<and>
   statusCode (fst (change E req res w)) \<in> {200, 404, 500} \<and>
   change (E\<lparr>validate := v\<rparr>) req res w = change E req res w"
  by (simp add: change_def find_by_id_def update_by_id_def Let_def json_def status_def
      split: option.splits)

section \<open>Delete\<close>

text \<open>
  C9. When the existence check succeeds and no row has the path id, \<open>remove\<close> answers
  404 with the message that names the id and returns the world as it was. When a row has
  that key and the delete succeeds, it answers 200 with the confirmation that names the
  id, no row with that key is left, and a get-one on the same id afterwards, if its query
  succeeds, answers 404.
\<close>

theorem remove_handler:
  "(\<not> fails E SelectById \<and> params_id req \<notin> id_key ` set (users w) \<longrightarrow>
      remove E req res w =
        (json (Message (''User with ID '' @ params_id req @ '' was not found to be deleted.''))
           (status 404 res), w) \<and>
      statusCode (fst (remove E req res w)) = 404) \<and>
   (\<not> fails E SelectById \<and> params_id req \<in> id_key ` set (users w) \<and> \<not> fails E DeleteById \<longrightarrow>
      remove E req res w =
        (json (Message (''User with ID '' @ params_id req @ '' deleted. '')) (status 200 res),
         w\<lparr>users := filter (\<lambda>u. id_key u \<noteq> params_id req) (users w)\<rparr>) \<and>
      statusCode (fst (remove E req res w)) = 200 \<and>
      params_id req \<notin> id_key ` set (users (snd (remove E req res w))) \<and>
      (\<not> fails E' SelectById \<and> params_id req' = params_id req \<longrightarrow>
         show_user E' req' res' (snd (remove E req res w)) =
           (json (Message (''User with ID '' @ params_id req @ '' not found in the database.''))
              (status 404 res'),
            snd (remove E req res w)) \<and>
         statusCode (fst (show_user E' req' res' (snd (remove E req res w)))) = 404))"
proof (intro conjI impI)
  assume h: "\<not> fails E SelectById \<and> params_id req \<notin> id_key ` set (users w)"
  then show "remove E req res w =
        (json (Message (''User with ID '' @ params_id req @ '' was not found to be deleted.''))
           (status 404 res), w)"
    using find_absent [of "params_id req" "users w"]
    by (simp add: remove_def find_by_id_def Let_def)
  then show "statusCode (fst (remove E req res w)) = 404"
    by (simp add: json_def status_def)
next
  assume h: "\<not> fails E SelectById \<and> params_id req \<in> id_key ` set (users w) \<and> \<not> fails E DeleteById"
  then obtain u where found: "find (\<lambda>u. id_key u = params_id req) (users w) = Some u"
    using find_present by blast
  show run: "remove E req res w =
        (json (Message (''User with ID '' @ params_id req @ '' deleted. '')) (status 200 res),
         w\<lparr>users := filter (\<lambda>u. id_key u \<noteq> params_id req) (users w)\<rparr>)"
    using h found by (simp add: remove_def find_by_id_def delete_by_id_def Let_def)
  show "statusCode (fst (remove E req res w)) = 200"
    by (simp add: run json_def status_def)
  show "params_id req \<notin> id_key ` set (users (snd (remove E req res w)))"
    by (auto simp: run)
  {
    assume g: "\<not> fails E' SelectById \<and> params_id req' = params_id req"
    then show again: "show_user E' req' res' (snd (remove E req res w)) =
           (json (Message (''User with ID '' @ params_id req @ '' not found in the database.''))
              (status 404 res'),
            snd (remove E req res w))"
      by (simp add: run show_user_def find_by_id_def Let_def find_deleted)
    show "statusCode (fst (show_user E' req' res' (snd (remove E req res w)))) = 404"
      by (simp add: again json_def status_def)
  }
qed

text \<open>
  A delete of an id that the sample table does not hold, and a delete of Ann's row.
\<close>

theorem remove_handler_witness:
  "remove sample_env put_nobody new_response sample_world =
     (\<lparr>statusCode = 404, headers = Map.empty,
       payload = Message ''User with ID 00000000 was not found to be deleted.''\<rparr>,
      sample_world) \<and>
   remove sample_env put_ann new_response sample_world =
     (\<lparr>statusCode = 200, headers = Map.empty,
       payload = Message ''User with ID 0a1b2c3d deleted. ''\<rparr>,
      \<lparr>users = [bob], console = []\<rparr>) \<and>
   statusCode (fst (show_user sample_env put_ann new_response
     (snd (remove sample_env put_ann new_response sample_world)))) = 404"
proof -
  have h1: "\<not> fails sample_env SelectById" and h3: "\<not> fails sample_env DeleteById"
    by (simp_all add: sample_env_def)
  have absent: "params_id put_nobody \<notin> id_key ` set (users sample_world)"
    and present: "params_id put_ann \<in> id_key ` set (users sample_world)"
    by (simp_all add: sample_defs)
  have r1: "remove sample_env put_nobody new_response sample_world =
      (json (Message (''User with ID '' @ params_id put_nobody @
                      '' was not found to be deleted.'')) (status 404 new_response),
       sample_world)"
    using h1 absent
      remove_handler [where E = sample_env and req = put_nobody and w = sample_world
        and res = new_response]
    by blast
  note t = remove_handler [where E = sample_env and req = put_ann and w = sample_world
      and res = new_response and E' = sample_env and req' = put_ann and res' = new_response]
  have r2: "remove sample_env put_ann new_response sample_world =
      (json (Message (''User with ID '' @ params_id put_ann @ '' deleted. ''))
         (status 200 new_response),
       sample_world\<lparr>users := filter (\<lambda>u. id_key u \<noteq> params_id put_ann)
                                (users sample_world)\<rparr>)"
    using h1 h3 present t by blast
  have r3: "statusCode (fst (show_user sample_env put_ann new_response
     (snd (remove sample_env put_ann new_response sample_world)))) = 404"
    using h1 h3 present t by blast
  have "remove sample_env put_nobody new_response sample_world =
     (\<lparr>statusCode = 404, headers = Map.empty,
       payload = Message ''User with ID 00000000 was not found to be deleted.''\<rparr>,
      sample_world)"
    unfolding r1 by (simp add: response_defs put_nobody_def)
  moreover have "remove sample_env put_ann new_response sample_world =
     (\<lparr>statusCode = 200, headers = Map.empty,
       payload = Message ''User with ID 0a1b2c3d deleted. ''\<rparr>,
      \<lparr>users = [bob], console = []\<rparr>)"
    unfolding r2 by (simp add: response_defs put_ann_def sample_world_def ann_def bob_def)
  ultimately show ?thesis using r3 by simp
qed

section \<open>Read-only handlers\<close>

text \<open>
  C10. The list handler and the get-one handler are read-only: whatever the request,
  the environment and the outcome (200, 404 or 500), the users table after the call is
  the users table before it.
\<close>

theorem index_show_read_only:
  "users (snd (index E req res w)) = users w \<and>
   users (snd (show_user E req res w)) = users w"
  by (simp add: index_def show_user_def select_all_def count_all_def find_by_id_def
      console_error_def Let_def split: option.splits)

end
